theory Spec2Isabelle
  imports Complex_Main
begin

section \<open>The launcher window of FORCE: package/gui.py\<close>

text \<open>
  The class \<open>BasicGUI\<close> starts a script as a child process from a worker thread, copies
  the child's output into a text widget line by line, shows a status and the elapsed time,
  and terminates the child when the user confirms the Cancel dialog. The model passes the
  state of the object explicitly. Method names lose their leading underscore; the nested
  function \<open>_run_script\<close> of \<open>run_script\<close> is \<open>inner_run_script\<close>.
\<close>

subsection \<open>Data\<close>

text \<open>The two widget states the code uses: \<open>tk.NORMAL\<close> and \<open>tk.DISABLED\<close>.\<close>

datatype tk_state = NORMAL | DISABLED

text \<open>
  The exceptions that leave the code. \<open>ValueError\<close> and \<open>FileNotFoundError\<close> are raised by
  the code itself, with their message. \<open>PopenError\<close> is whatever \<open>subprocess.Popen\<close> raises
  when the program cannot be started, \<open>ReadError\<close> whatever reading the next line of the
  pipe raises (an \<open>OSError\<close>, or a decoding error of the text-mode stream).
\<close>

datatype exn = ValueError string | FileNotFoundError string | PopenError | ReadError

text \<open>
  What the run does to the outside, in program order: a thread started by the Run button,
  a line inserted into the text widget (\<open>write_line\<close>), a call of \<open>_update_status\<close> with
  its two optional arguments, \<open>subprocess.Popen(cmd, ...)\<close>, \<open>p.terminate()\<close>, and the
  exit of the \<open>with\<close> block of the process, which closes the pipe and waits for the child.
\<close>

datatype event =
    ThreadStart
  | OutputEvent string
  | StatusUpdate "string option" "real option"
  | Spawn "string list"
  | Terminate
  | Release

text \<open>
  The attributes of a \<open>BasicGUI\<close> that the run reads or writes. \<open>time_elapsed_label\<close>
  holds the whole seconds of the \<open>timedelta\<close> shown (\<open>None\<close> for the initial label without
  a time), \<open>text_widget\<close> the chunks inserted so far, \<open>file_frame\<close> whether the file
  selection frame is on the grid, \<open>run_command\<close> the script the Run button is wired to
  (\<open>None\<close> before \<open>run_script\<close> wires it), \<open>mainloop\<close> whether the event loop was entered,
  and \<open>trace\<close> the events so far.
\<close>

record gui =
  file_arg :: "string option"
  cancel_pressed :: bool
  status_label :: string
  time_elapsed_label :: "int option"
  text_widget :: "string list"
  file_frame :: bool
  run_button :: tk_state
  run_command :: "string option"
  cancel_button :: tk_state
  mainloop :: bool
  trace :: "event list"

text \<open>
  One read of \<open>for line in p.stdout\<close>: either a line, with the value of \<open>time.time()\<close>
  read after the line was written to the widget and the answers given to the Cancel
  dialogs (\<open>askokcancel\<close>) that the user closed since the previous look at the cancel flag,
  or an exception raised by the read.
\<close>

datatype read = Line string real "bool list" | ReadFail

text \<open>
  The child process and the clock as the run meets them: whether \<open>Popen\<close> starts the
  child, what its merged output yields (finitely many reads, then end of file),
  whether the child has already exited when \<open>p.poll()\<close> is called after the loop, the
  return code it exits with, and \<open>time.time()\<close> at the start and at the end of the run.
  The child exits when the \<open>with\<close> block waits for it.
\<close>

record child =
  popen_ok :: bool
  stdout :: "read list"
  exited_at_poll :: bool
  returncode :: int
  clock_start :: real
  clock_end :: real

subsection \<open>Library functions of Python used by the code\<close>

text \<open>\<open>str.endswith\<close>.\<close>

definition endswith :: "string \<Rightarrow> string \<Rightarrow> bool" where
  "endswith s suf =
     (length suf \<le> length s \<and> drop (length s - length suf) s = suf)"

text \<open>\<open>round\<close> on a float: to the nearest integer, a tie to the even one.\<close>

definition py_round :: "real \<Rightarrow> int" where
  "py_round x =
     (let f = \<lfloor>x\<rfloor>; r = x - of_int f
      in if r < 1 / 2 then f
         else if 1 / 2 < r then f + 1
         else if even f then f else f + 1)"

text \<open>\<open>str\<close> of an integer, as an f-string prints it.\<close>

fun digits :: "nat \<Rightarrow> string" where
  "digits n =
     (if n < 10 then [''0123456789'' ! n]
      else digits (n div 10) @ [''0123456789'' ! (n mod 10)])"

definition py_str :: "int \<Rightarrow> string" where
  "py_str i = (if i < 0 then ''-'' @ digits (nat (- i)) else digits (nat i))"

text \<open>\<open>p.poll()\<close>: the return code once the child has exited, \<open>None\<close> before.\<close>

definition poll :: "child \<Rightarrow> int option" where
  "poll ch = (if exited_at_poll ch then Some (returncode ch) else None)"

subsection \<open>The methods of BasicGUI\<close>

text \<open>The constructor: no file, Run disabled, Cancel enabled, nothing wired.\<close>

definition BasicGUI :: gui where
  "BasicGUI =
     \<lparr> file_arg = None, cancel_pressed = False,
       status_label = ''Status: No file selected.'', time_elapsed_label = None,
       text_widget = [], file_frame = True, run_button = DISABLED,
       run_command = None, cancel_button = NORMAL, mainloop = False, trace = [] \<rparr>"

text \<open>\<open>_ask_cancel\<close>, given the answer of the dialog.\<close>

definition ask_cancel :: "bool \<Rightarrow> gui \<Rightarrow> gui" where
  "ask_cancel response g = (if response then g\<lparr>cancel_pressed := True\<rparr> else g)"

text \<open>\<open>_update_status(status, time_elapsed)\<close>.\<close>

definition update_status :: "string option \<Rightarrow> real option \<Rightarrow> gui \<Rightarrow> gui" where
  "update_status status time_elapsed g =
     (let g1 = (case status of
                  None \<Rightarrow> g
                | Some s \<Rightarrow> g\<lparr>status_label := ''Status: '' @ s\<rparr>);
          g2 = (case time_elapsed of
                  None \<Rightarrow> g1
                | Some t \<Rightarrow> g1\<lparr>time_elapsed_label := Some (py_round t)\<rparr>)
      in g2\<lparr>trace := trace g2 @ [StatusUpdate status time_elapsed]\<rparr>)"

text \<open>\<open>write_line(line)\<close>.\<close>

definition write_line :: "string \<Rightarrow> gui \<Rightarrow> gui" where
  "write_line line g =
     g\<lparr>text_widget := text_widget g @ [line], trace := trace g @ [OutputEvent line]\<rparr>"

text \<open>\<open>_build_script_command(filename)\<close>: the branch on the extension, then the append.\<close>

definition build_script_command :: "gui \<Rightarrow> string \<Rightarrow> exn + string list" where
  "build_script_command g filename =
     (let cmd =
        (if endswith filename ''.py'' \<or> endswith filename ''.pyc''
           then Inr [''python'', ''-u'', filename]
         else if endswith filename ''.exe'' then Inr [filename]
         else if endswith filename ''.sh'' then Inr [''bash'', filename]
         else Inl (ValueError (''File '' @ filename
                @ '' has an unrecognized extension. Must be .py, .exe, or .sh.'')))
      in case cmd of
           Inl e \<Rightarrow> Inl e
         | Inr c \<Rightarrow> (case file_arg g of None \<Rightarrow> Inr c | Some a \<Rightarrow> Inr (c @ [a])))"

subsection \<open>The run\<close>

text \<open>\<open>p.terminate()\<close> and the exit of \<open>with subprocess.Popen(...) as p\<close>.\<close>

definition terminate :: "gui \<Rightarrow> gui" where
  "terminate g = g\<lparr>trace := trace g @ [Terminate]\<rparr>"

definition release :: "gui \<Rightarrow> gui" where
  "release g = g\<lparr>trace := trace g @ [Release]\<rparr>"

text \<open>
  The loop \<open>for line in p.stdout\<close> with the local \<open>exit_status\<close>. The Cancel dialogs
  answered while the thread waited for the line and wrote it only set the flag, which
  the loop reads after the status update. The result is the local \<open>exit_status\<close> when
  the loop is left at the end of the stream or by \<open>break\<close>, and the exception otherwise.
\<close>

fun read_loop :: "read list \<Rightarrow> real \<Rightarrow> string \<Rightarrow> gui \<Rightarrow> gui \<times> (exn + string)" where
  "read_loop [] start_time exit_status g = (g, Inr exit_status)"
| "read_loop (ReadFail # rs) start_time exit_status g = (g, Inl ReadError)"
| "read_loop (Line line now answers # rs) start_time exit_status g =
     (let g1 = foldl (\<lambda>s a. ask_cancel a s) g answers;
          g2 = write_line line g1;
          g3 = update_status None (Some (now - start_time)) g2
      in if cancel_pressed g3
         then (write_line ''Subprocess terminated.\<newline>'' (terminate g3), Inr ''Halted'')
         else read_loop rs start_time exit_status g3)"

text \<open>
  The state on entry to the body of the \<open>with\<close> block: the child is spawned, Run is
  disabled and Cancel enabled.
\<close>

definition popen_entered :: "string list \<Rightarrow> gui \<Rightarrow> gui" where
  "popen_entered cmd g =
     (g\<lparr>trace := trace g @ [Spawn cmd]\<rparr>)\<lparr>run_button := DISABLED, cancel_button := NORMAL\<rparr>"

text \<open>
  The \<open>with\<close> block and the two statements after it. When \<open>Popen\<close> raises there is no
  process and no block. Otherwise the block is left through its exit (\<open>release\<close>) on
  every path: by the exception of a read, or after \<open>if p.poll()\<close> has replaced
  \<open>exit_status\<close> for a return code that is not zero.
\<close>

definition with_popen :: "child \<Rightarrow> string list \<Rightarrow> real \<Rightarrow> gui \<Rightarrow> gui \<times> exn option" where
  "with_popen ch cmd start_time g =
     (if \<not> popen_ok ch then (g, Some PopenError)
      else
        case read_loop (stdout ch) start_time ''Done'' (popen_entered cmd g) of
          (g1, Inl e) \<Rightarrow> (release g1, Some e)
        | (g1, Inr exit_status) \<Rightarrow>
            (let exit_status' =
                   (case poll ch of
                      None \<Rightarrow> exit_status
                    | Some c \<Rightarrow>
                        if c \<noteq> 0 then ''Error ('' @ py_str c @ '')'' else exit_status);
                 g2 = release g1;
                 g3 = update_status (Some exit_status')
                        (Some (clock_end ch - start_time)) g2
             in (g3\<lparr>run_button := NORMAL\<rparr>, None)))"

text \<open>
  The state before the \<open>with\<close> block, for a command that was built: the status is
  \<open>Running\<close> with no time elapsed and the text widget is empty.
\<close>

definition run_prologue :: "gui \<Rightarrow> gui" where
  "run_prologue g =
     (update_status (Some ''Running'') (Some 0) g)\<lparr>text_widget := []\<rparr>"

text \<open>
  The nested function \<open>_run_script\<close>, the body of the worker thread: the final state
  and the exception that ended the thread, if any.
\<close>

definition inner_run_script :: "child \<Rightarrow> string \<Rightarrow> gui \<Rightarrow> gui \<times> exn option" where
  "inner_run_script ch filename g =
     (let g1 = g\<lparr>cancel_pressed := False\<rparr>
      in case build_script_command g1 filename of
           Inl e \<Rightarrow> (g1, Some e)
         | Inr cmd \<Rightarrow> with_popen ch cmd (clock_start ch) (run_prologue g1))"



text \<open>
  \<open>run_script(filename, requires_input)\<close>, given \<open>os.path.exists\<close>: the state when the
  event loop is entered, or the state and the exception raised.
\<close>

definition run_script :: "(string \<Rightarrow> bool) \<Rightarrow> string \<Rightarrow> bool \<Rightarrow> gui \<Rightarrow> gui \<times> exn option" where
  "run_script path_exists filename requires_input g =
     (if \<not> path_exists filename
        then (g, Some (FileNotFoundError (''File '' @ filename @ '' does not exist.'')))
      else
        let g1 = (if \<not> requires_input
                  then (update_status (Some ''Ready'') None g)
                         \<lparr>run_button := NORMAL, file_frame := False\<rparr>
                  else g);
            g2 = g1\<lparr>run_command := Some filename\<rparr>
        in (g2\<lparr>mainloop := True\<rparr>, None))"

subsection \<open>Reading the events of a run\<close>

text \<open>The lines inserted into the text widget, in order.\<close>

fun outputs :: "event list \<Rightarrow> string list" where
  "outputs [] = []"
| "outputs (OutputEvent line # es) = line # outputs es"
| "outputs (e # es) = outputs es"

text \<open>The elapsed times passed to \<open>_update_status\<close>, in order.\<close>

fun elapsed_times :: "event list \<Rightarrow> real list" where
  "elapsed_times [] = []"
| "elapsed_times (StatusUpdate status (Some t) # es) = t # elapsed_times es"
| "elapsed_times (e # es) = elapsed_times es"

text \<open>
  The process handles open after the events, from \<open>n\<close> open ones: a spawn opens one,
  a release closes one, and a release with none open is refused.
\<close>

fun handles :: "event list \<Rightarrow> nat \<Rightarrow> nat option" where
  "handles [] n = Some n"
| "handles (Spawn cmd # es) n = handles es (Suc n)"
| "handles (Release # es) n = (if n = 0 then None else handles es (n - 1))"
| "handles (e # es) n = handles es n"

text \<open>
  Every status update that carries only a time (the one made for an output line) comes
  after an output line of its own: \<open>n\<close> counts the lines written and not yet followed
  by their update.
\<close>

fun status_after_output :: "event list \<Rightarrow> nat \<Rightarrow> bool" where
  "status_after_output [] n = True"
| "status_after_output (OutputEvent line # es) n = status_after_output es (Suc n)"
| "status_after_output (StatusUpdate None t # es) n =
     (if n = 0 then False else status_after_output es (n - 1))"
| "status_after_output (e # es) n = status_after_output es n"

text \<open>The lines the child writes, and the clock readings taken after them.\<close>

fun line_texts :: "read list \<Rightarrow> string list" where
  "line_texts [] = []"
| "line_texts (Line line now answers # rs) = line # line_texts rs"
| "line_texts (ReadFail # rs) = line_texts rs"

fun read_times :: "read list \<Rightarrow> real list" where
  "read_times [] = []"
| "read_times (Line line now answers # rs) = now # read_times rs"
| "read_times (ReadFail # rs) = read_times rs"

text \<open>
  The events of the loop written out, for a loop entered with the cancel flag \<open>c\<close>;
  \<open>read_loop_trace\<close> below proves that the loop appends exactly these.
\<close>

fun loop_events :: "read list \<Rightarrow> real \<Rightarrow> bool \<Rightarrow> event list" where
  "loop_events [] start_time c = []"
| "loop_events (ReadFail # rs) start_time c = []"
| "loop_events (Line line now answers # rs) start_time c =
     OutputEvent line # StatusUpdate None (Some (now - start_time)) #
       (if c \<or> True \<in> set answers
        then [Terminate, OutputEvent ''Subprocess terminated.\<newline>'']
        else loop_events rs start_time False)"

text \<open>The events that one run of the thread adds to the trace.\<close>

definition run_events :: "child \<Rightarrow> string \<Rightarrow> gui \<Rightarrow> event list" where
  "run_events ch filename g =
     drop (length (trace g)) (trace (fst (inner_run_script ch filename g)))"

text \<open>The status update after the \<open>with\<close> block, which a run ended by an exception lacks.\<close>

definition final_events :: "child \<Rightarrow> string \<Rightarrow> gui \<Rightarrow> event list" where
  "final_events ch filename g =
     (case snd (inner_run_script ch filename g) of
        Some e \<Rightarrow> []
      | None \<Rightarrow> [StatusUpdate (Some (drop 8 (status_label (fst (inner_run_script ch filename g)))))
                  (Some (clock_end ch - clock_start ch))])"

section \<open>Properties\<close>

subsection \<open>Auxiliary facts\<close>

lemma cancel_pressed_foldl:
  "cancel_pressed (foldl (\<lambda>s a. ask_cancel a s) g answers)
     = (cancel_pressed g \<or> True \<in> set answers)"
  by (induction answers arbitrary: g) (auto simp: ask_cancel_def)

lemma trace_foldl: "trace (foldl (\<lambda>s a. ask_cancel a s) g answers) = trace g"
  by (induction answers arbitrary: g) (auto simp: ask_cancel_def)

lemma run_button_foldl: "run_button (foldl (\<lambda>s a. ask_cancel a s) g answers) = run_button g"
  by (induction answers arbitrary: g) (auto simp: ask_cancel_def)

lemma status_label_foldl: "status_label (foldl (\<lambda>s a. ask_cancel a s) g answers) = status_label g"
  by (induction answers arbitrary: g) (auto simp: ask_cancel_def)

lemma run_command_foldl: "run_command (foldl (\<lambda>s a. ask_cancel a s) g answers) = run_command g"
  by (induction answers arbitrary: g) (auto simp: ask_cancel_def)

lemmas foldl_fields = cancel_pressed_foldl trace_foldl run_button_foldl status_label_foldl
  run_command_foldl

lemmas step_defs = write_line_def update_status_def terminate_def Let_def

lemma read_loop_trace:
  "trace (fst (read_loop rs t0 st g)) = trace g @ loop_events rs t0 (cancel_pressed g)"
  by (induction rs t0 st g rule: read_loop.induct) (simp_all add: step_defs foldl_fields)


lemma read_loop_run_command: "run_command (fst (read_loop rs t0 st g)) = run_command g"
  by (induction rs t0 st g rule: read_loop.induct) (simp_all add: step_defs foldl_fields)

lemma read_loop_status_label: "status_label (fst (read_loop rs t0 st g)) = status_label g"
  by (induction rs t0 st g rule: read_loop.induct) (simp_all add: step_defs foldl_fields)

lemma read_loop_result:
  "snd (read_loop rs t0 st g) = Inl ReadError \<and> Terminate \<notin> set (loop_events rs t0 (cancel_pressed g))
   \<or> snd (read_loop rs t0 st g) = Inr st \<and> Terminate \<notin> set (loop_events rs t0 (cancel_pressed g))
   \<or> snd (read_loop rs t0 st g) = Inr ''Halted'' \<and> Terminate \<in> set (loop_events rs t0 (cancel_pressed g))"
  by (induction rs t0 st g rule: read_loop.induct) (simp_all add: step_defs foldl_fields)


lemma with_popen_fail:
  "\<not> popen_ok ch \<Longrightarrow> with_popen ch cmd t0 g = (g, Some PopenError)"
  by (simp add: with_popen_def)

lemma with_popen_ok:
  assumes "popen_ok ch" and "\<not> cancel_pressed g"
  shows "\<exists>tail. trace (fst (with_popen ch cmd t0 g))
            = trace g @ Spawn cmd # loop_events (stdout ch) t0 False @ Release # tail
      \<and> (snd (with_popen ch cmd t0 g) = Some ReadError \<and> tail = []
            \<and> status_label (fst (with_popen ch cmd t0 g)) = status_label g
            \<and> Terminate \<notin> set (loop_events (stdout ch) t0 False)
          \<or> snd (with_popen ch cmd t0 g) = None
            \<and> (\<exists>l. tail = [StatusUpdate (Some l) (Some (clock_end ch - t0))]
                  \<and> status_label (fst (with_popen ch cmd t0 g)) = ''Status: '' @ l
                  \<and> l = (case poll ch of
                           None \<Rightarrow> if Terminate \<in> set (loop_events (stdout ch) t0 False)
                                   then ''Halted'' else ''Done''
                         | Some c \<Rightarrow>
                             if c \<noteq> 0 then ''Error ('' @ py_str c @ '')''
                             else if Terminate \<in> set (loop_events (stdout ch) t0 False)
                                  then ''Halted'' else ''Done'')))"
proof -
  let ?g0 = "popen_entered cmd g"
  let ?r = "read_loop (stdout ch) t0 ''Done'' ?g0"
  have c: "cancel_pressed ?g0 = False" using assms by (simp add: popen_entered_def)
  have t: "trace (fst ?r) = trace g @ Spawn cmd # loop_events (stdout ch) t0 False"
    using read_loop_trace [of "stdout ch" t0 "''Done''" ?g0] c
    by (simp add: popen_entered_def)
  have s: "status_label (fst ?r) = status_label g"
    by (simp add: read_loop_status_label popen_entered_def)
  from read_loop_result [of "stdout ch" t0 "''Done''" ?g0] c
  consider (err) "snd ?r = Inl ReadError" "Terminate \<notin> set (loop_events (stdout ch) t0 False)"
    | (finished) "snd ?r = Inr ''Done''" "Terminate \<notin> set (loop_events (stdout ch) t0 False)"
    | (halted) "snd ?r = Inr ''Halted''" "Terminate \<in> set (loop_events (stdout ch) t0 False)"
    by auto
  then show ?thesis
  proof cases
    case err
    then obtain g1 where r: "?r = (g1, Inl ReadError)" by (cases ?r) auto
    then have f: "fst ?r = g1" by simp
    have t1: "trace g1 = trace g @ Spawn cmd # loop_events (stdout ch) t0 False"
      and s1: "status_label g1 = status_label g" using t s f by simp_all
    from r have w: "with_popen ch cmd t0 g = (release g1, Some ReadError)"
      using assms by (simp add: with_popen_def)
    show ?thesis using err(2) by (simp add: w release_def t1 s1)
  next
    case finished
    then obtain g1 where r: "?r = (g1, Inr ''Done'')" by (cases ?r) auto
    then have f: "fst ?r = g1" by simp
    have t1: "trace g1 = trace g @ Spawn cmd # loop_events (stdout ch) t0 False"
      and s1: "status_label g1 = status_label g" using t s f by simp_all
    from r have w: "with_popen ch cmd t0 g =
      ((update_status (Some (case poll ch of None \<Rightarrow> ''Done''
           | Some c \<Rightarrow> if c \<noteq> 0 then ''Error ('' @ py_str c @ '')'' else ''Done''))
          (Some (clock_end ch - t0)) (release g1))\<lparr>run_button := NORMAL\<rparr>, None)"
      using assms by (simp add: with_popen_def Let_def)
    show ?thesis using finished(2) by (simp add: w release_def update_status_def t1)
  next
    case halted
    then obtain g1 where r: "?r = (g1, Inr ''Halted'')" by (cases ?r) auto
    then have f: "fst ?r = g1" by simp
    have t1: "trace g1 = trace g @ Spawn cmd # loop_events (stdout ch) t0 False"
      and s1: "status_label g1 = status_label g" using t s f by simp_all
    from r have w: "with_popen ch cmd t0 g =
      ((update_status (Some (case poll ch of None \<Rightarrow> ''Halted''
           | Some c \<Rightarrow> if c \<noteq> 0 then ''Error ('' @ py_str c @ '')'' else ''Halted''))
          (Some (clock_end ch - t0)) (release g1))\<lparr>run_button := NORMAL\<rparr>, None)"
      using assms by (simp add: with_popen_def Let_def)
    show ?thesis using halted(2) by (simp add: w release_def update_status_def t1)
  qed
qed


lemma build_script_command_cancel:
  "build_script_command (g\<lparr>cancel_pressed := c\<rparr>) filename = build_script_command g filename"
  by (simp add: build_script_command_def)

lemma inner_build_fail:
  "build_script_command g filename = Inl e \<Longrightarrow>
   inner_run_script ch filename g = (g\<lparr>cancel_pressed := False\<rparr>, Some e)"
  by (simp add: inner_run_script_def build_script_command_cancel)

lemma inner_build_ok:
  "build_script_command g filename = Inr cmd \<Longrightarrow>
   inner_run_script ch filename g
     = with_popen ch cmd (clock_start ch) (run_prologue (g\<lparr>cancel_pressed := False\<rparr>))"
  by (simp add: inner_run_script_def build_script_command_cancel)

lemma run_prologue_fields:
  "trace (run_prologue g) = trace g @ [StatusUpdate (Some ''Running'') (Some 0)]"
  "status_label (run_prologue g) = ''Status: Running''"
  "cancel_pressed (run_prologue g) = cancel_pressed g"
  "run_button (run_prologue g) = run_button g"
  "run_command (run_prologue g) = run_command g"
  by (simp_all add: run_prologue_def update_status_def)

lemma run_events_shape:
  "run_events ch filename g =
     (case build_script_command g filename of
        Inl e \<Rightarrow> []
      | Inr cmd \<Rightarrow>
          StatusUpdate (Some ''Running'') (Some 0) #
            (if popen_ok ch
             then Spawn cmd # loop_events (stdout ch) (clock_start ch) False
                    @ Release # final_events ch filename g
             else []))"
proof (cases "build_script_command g filename")
  case (Inl e)
  then show ?thesis by (simp add: run_events_def inner_build_fail)
next
  case (Inr cmd)
  let ?p = "run_prologue (g\<lparr>cancel_pressed := False\<rparr>)"
  note i = inner_build_ok [OF Inr, of ch]
  show ?thesis
  proof (cases "popen_ok ch")
    case False
    then show ?thesis
      by (simp add: run_events_def i Inr with_popen_fail run_prologue_fields)
  next
    case True
    have "\<not> cancel_pressed ?p" by (simp add: run_prologue_fields)
    from with_popen_ok [OF True this, of cmd "clock_start ch"]
    show ?thesis
      by (auto simp: run_events_def i Inr True run_prologue_fields final_events_def)
  qed
qed

lemma handles_loop_events:
  "handles (loop_events rs t0 c @ rest) n = handles rest n"
  by (induction rs t0 c rule: loop_events.induct) simp_all

lemma handles_final_events: "handles (final_events ch filename g) n = Some n"
  by (simp add: final_events_def split: option.splits)

lemma status_after_output_loop_events:
  "(\<And>m. status_after_output rest m) \<Longrightarrow>
   status_after_output (loop_events rs t0 c @ rest) n"
  by (induction rs t0 c arbitrary: n rule: loop_events.induct) simp_all

lemma status_after_output_final: "status_after_output (Release # final_events ch filename g) m"
  by (simp add: final_events_def split: option.splits)

lemma outputs_append: "outputs (xs @ ys) = outputs xs @ outputs ys"
  by (induction xs rule: outputs.induct) simp_all

lemma outputs_loop_events:
  "\<exists>k. outputs (loop_events rs t0 c)
     = take k (line_texts rs)
       @ (if Terminate \<in> set (loop_events rs t0 c) then [''Subprocess terminated.\<newline>''] else [])"
proof (induction rs t0 c rule: loop_events.induct)
  case (1 start_time c)
  then show ?case by simp
next
  case (2 rs start_time c)
  show ?case by (rule exI [of _ 0]) simp
next
  case (3 line now answers rs start_time c)
  show ?case
  proof (cases "c \<or> True \<in> set answers")
    case True
    show ?thesis by (rule exI [of _ 1]) (use True in simp)
  next
    case False
    with 3 obtain k where
      "outputs (loop_events rs start_time False)
         = take k (line_texts rs)
           @ (if Terminate \<in> set (loop_events rs start_time False)
              then [''Subprocess terminated.\<newline>''] else [])"
      by blast
    then show ?thesis using False by (intro exI [of _ "Suc k"]) simp
  qed
qed

lemma outputs_final_events: "outputs (final_events ch filename g) = []"
  by (simp add: final_events_def split: option.splits)

lemma Terminate_final_events: "Terminate \<notin> set (final_events ch filename g)"
  by (simp add: final_events_def split: option.splits)

lemma endswith_last: "endswith s suf \<Longrightarrow> suf \<noteq> [] \<Longrightarrow> last s = last suf"
proof -
  assume a: "endswith s suf" and b: "suf \<noteq> []"
  from a have d: "drop (length s - length suf) s = suf" and l: "length suf \<le> length s"
    by (simp_all add: endswith_def)
  from b l have "length s - length suf < length s" by (cases suf) auto
  then have "last (drop (length s - length suf) s) = last s" by (rule last_drop)
  with d show ?thesis by simp
qed

lemma endswith_exe:
  "endswith s ''.exe'' \<Longrightarrow> \<not> endswith s ''.py'' \<and> \<not> endswith s ''.pyc''"
  by (auto dest!: endswith_last)

lemma endswith_sh:
  "endswith s ''.sh'' \<Longrightarrow>
   \<not> endswith s ''.py'' \<and> \<not> endswith s ''.pyc'' \<and> \<not> endswith s ''.exe''"
  by (auto dest!: endswith_last)

subsection \<open>The command of a script\<close>

text \<open>
  C2, as the code has it. \<open>_build_script_command\<close> returns \<open>['python', '-u', filename]\<close>
  for a name ending in \<open>.py\<close> or \<open>.pyc\<close>, \<open>[filename]\<close> for one ending in \<open>.exe\<close> and
  \<open>['bash', filename]\<close> for one ending in \<open>.sh\<close>, and in each of the three cases the
  selected input file, when there is one, is appended last. For every other name it
  raises \<open>ValueError\<close>; the thread function then ends with that exception and adds no
  event to the trace, so that no process is spawned.
\<close>

theorem build_script_command_vector:
  "(endswith filename ''.py'' \<or> endswith filename ''.pyc'' \<longrightarrow>
      build_script_command g filename
        = Inr ([''python'', ''-u'', filename]
               @ (case file_arg g of None \<Rightarrow> [] | Some a \<Rightarrow> [a])))
   \<and> (endswith filename ''.exe'' \<longrightarrow>
      build_script_command g filename
        = Inr ([filename] @ (case file_arg g of None \<Rightarrow> [] | Some a \<Rightarrow> [a])))
   \<and> (endswith filename ''.sh'' \<longrightarrow>
      build_script_command g filename
        = Inr ([''bash'', filename] @ (case file_arg g of None \<Rightarrow> [] | Some a \<Rightarrow> [a])))
   \<and> (\<not> endswith filename ''.py'' \<and> \<not> endswith filename ''.pyc''
        \<and> \<not> endswith filename ''.exe'' \<and> \<not> endswith filename ''.sh'' \<longrightarrow>
      (\<exists>msg. build_script_command g filename = Inl (ValueError msg)
         \<and> inner_run_script ch filename g
             = (g\<lparr>cancel_pressed := False\<rparr>, Some (ValueError msg)))
      \<and> run_events ch filename g = [])"
proof (intro conjI impI)
  assume "endswith filename ''.py'' \<or> endswith filename ''.pyc''"
  then show "build_script_command g filename
        = Inr ([''python'', ''-u'', filename]
               @ (case file_arg g of None \<Rightarrow> [] | Some a \<Rightarrow> [a]))"
    by (simp add: build_script_command_def split: option.splits)
next
  assume "endswith filename ''.exe''"
  with endswith_exe [of filename]
  show "build_script_command g filename
        = Inr ([filename] @ (case file_arg g of None \<Rightarrow> [] | Some a \<Rightarrow> [a]))"
    by (simp add: build_script_command_def split: option.splits)
next
  assume "endswith filename ''.sh''"
  with endswith_sh [of filename]
  show "build_script_command g filename
        = Inr ([''bash'', filename] @ (case file_arg g of None \<Rightarrow> [] | Some a \<Rightarrow> [a]))"
    by (simp add: build_script_command_def split: option.splits)
next
  assume n: "\<not> endswith filename ''.py'' \<and> \<not> endswith filename ''.pyc''
        \<and> \<not> endswith filename ''.exe'' \<and> \<not> endswith filename ''.sh''"
  then have b: "build_script_command g filename
      = Inl (ValueError (''File '' @ filename
                @ '' has an unrecognized extension. Must be .py, .exe, or .sh.''))"
    by (simp add: build_script_command_def)
  show "\<exists>msg. build_script_command g filename = Inl (ValueError msg)
         \<and> inner_run_script ch filename g
             = (g\<lparr>cancel_pressed := False\<rparr>, Some (ValueError msg))"
    using b inner_build_fail [OF b, of ch] by blast
  show "run_events ch filename g = []"
    using b by (simp add: run_events_shape)
qed

theorem build_script_command_vector_witness:
  "build_script_command (BasicGUI\<lparr>file_arg := Some ''in.xml''\<rparr>) ''main.py''
     = Inr [''python'', ''-u'', ''main.py'', ''in.xml'']
   \<and> build_script_command BasicGUI ''main.pyc'' = Inr [''python'', ''-u'', ''main.pyc'']
   \<and> build_script_command (BasicGUI\<lparr>file_arg := Some ''in.xml''\<rparr>) ''tool.exe''
     = Inr [''tool.exe'', ''in.xml'']
   \<and> build_script_command (BasicGUI\<lparr>file_arg := Some ''in.xml''\<rparr>) ''job.sh''
     = Inr [''bash'', ''job.sh'', ''in.xml'']
   \<and> run_events
        \<lparr>popen_ok = True, stdout = [], exited_at_poll = True,
          returncode = 0, clock_start = 0, clock_end = 1\<rparr>
        ''notes.txt'' BasicGUI = []"
proof -
  let ?g = "BasicGUI\<lparr>file_arg := Some ''in.xml''\<rparr>"
  let ?ch = "\<lparr>popen_ok = True, stdout = [], exited_at_poll = True,
      returncode = 0, clock_start = 0, clock_end = 1\<rparr>"
  have py: "endswith ''main.py'' ''.py''" and pyc: "endswith ''main.pyc'' ''.pyc''"
    and exe: "endswith ''tool.exe'' ''.exe''" and sh: "endswith ''job.sh'' ''.sh''"
    and other: "\<not> endswith ''notes.txt'' ''.py'' \<and> \<not> endswith ''notes.txt'' ''.pyc''
        \<and> \<not> endswith ''notes.txt'' ''.exe'' \<and> \<not> endswith ''notes.txt'' ''.sh''"
    by (simp_all add: endswith_def)
  show ?thesis
    using build_script_command_vector [of "''main.py''" ?g ?ch]
      build_script_command_vector [of "''main.pyc''" BasicGUI ?ch]
      build_script_command_vector [of "''tool.exe''" ?g ?ch]
      build_script_command_vector [of "''job.sh''" ?g ?ch]
      build_script_command_vector [of "''notes.txt''" BasicGUI ?ch]
      py pyc exe sh other
    by (simp add: BasicGUI_def)
qed

text \<open>
  C2 as it is written gives \<open>[filename]\<close> for a name ending in \<open>.exe\<close>. With an input
  file selected the code returns the name followed by the input file.
\<close>

theorem build_script_command_exe_counterexample:
  "endswith ''tool.exe'' ''.exe''
   \<and> build_script_command (BasicGUI\<lparr>file_arg := Some ''in.xml''\<rparr>) ''tool.exe''
       = Inr [''tool.exe'', ''in.xml'']
   \<and> build_script_command (BasicGUI\<lparr>file_arg := Some ''in.xml''\<rparr>) ''tool.exe''
       \<noteq> Inr [''tool.exe'']"
  by (simp add: build_script_command_def endswith_def BasicGUI_def)

subsection \<open>A script that does not exist\<close>

text \<open>
  C10. When \<open>os.path.exists(filename)\<close> is false, \<open>run_script\<close> raises
  \<open>FileNotFoundError\<close> and leaves the object as it was: the Run button is not wired, the
  event loop is not entered and the trace has no new event, so nothing is spawned.
\<close>

theorem run_script_missing_file:
  "\<not> path_exists filename \<Longrightarrow>
   run_script path_exists filename requires_input g
     = (g, Some (FileNotFoundError (''File '' @ filename @ '' does not exist.'')))"
  by (simp add: run_script_def)

theorem run_script_missing_file_witness:
  "\<not> (\<lambda>f. f = ''here.py'') ''gone.py''
   \<and> run_script (\<lambda>f. f = ''here.py'') ''gone.py'' True BasicGUI
       = (BasicGUI, Some (FileNotFoundError ''File gone.py does not exist.''))
   \<and> run_command (fst (run_script (\<lambda>f. f = ''here.py'') ''gone.py'' True BasicGUI)) = None
   \<and> \<not> mainloop (fst (run_script (\<lambda>f. f = ''here.py'') ''gone.py'' True BasicGUI))
   \<and> trace (fst (run_script (\<lambda>f. f = ''here.py'') ''gone.py'' True BasicGUI)) = []"
proof -
  have h: "\<not> (\<lambda>f. f = ''here.py'') ''gone.py''" by simp
  show ?thesis
    using run_script_missing_file [of "\<lambda>f. f = ''here.py''" "''gone.py''" True BasicGUI, OF h]
    by (simp add: BasicGUI_def)
qed

subsection \<open>The process handle\<close>

text \<open>
  C9. In the events of every run, whatever the child does and however the run ends (end
  of the stream, a return code that is not zero, cancellation, an exception of a read,
  or no process at all), every spawn is followed by the release of its handle, and no
  handle is open at the end.
\<close>

theorem run_releases_handles:
  "handles (run_events ch filename g) 0 = Some 0"
  by (simp add: run_events_shape handles_loop_events handles_final_events split: sum.splits)

subsection \<open>The order of the events\<close>

lemma read_loop_all_lines:
  "snd (read_loop rs t0 st g) = Inr x \<Longrightarrow>
   Terminate \<notin> set (loop_events rs t0 (cancel_pressed g)) \<Longrightarrow>
   outputs (loop_events rs t0 (cancel_pressed g)) = line_texts rs"
  by (induction rs t0 st g rule: read_loop.induct)
     (simp_all add: step_defs foldl_fields split: if_splits)

lemma with_popen_None:
  "snd (with_popen ch cmd t0 g) = None \<Longrightarrow>
   popen_ok ch \<and> (\<exists>x. snd (read_loop (stdout ch) t0 ''Done'' (popen_entered cmd g)) = Inr x)"
  by (auto simp: with_popen_def Let_def split: if_splits prod.splits sum.splits)

lemma inner_None:
  assumes "snd (inner_run_script ch filename g) = None"
  shows "\<exists>cmd l. build_script_command g filename = Inr cmd \<and> popen_ok ch
     \<and> (\<exists>x. snd (read_loop (stdout ch) (clock_start ch) ''Done''
                (popen_entered cmd (run_prologue (g\<lparr>cancel_pressed := False\<rparr>)))) = Inr x)
     \<and> final_events ch filename g = [StatusUpdate (Some l) (Some (clock_end ch - clock_start ch))]
     \<and> status_label (fst (inner_run_script ch filename g)) = ''Status: '' @ l
     \<and> l = (case poll ch of
              None \<Rightarrow> if Terminate \<in> set (loop_events (stdout ch) (clock_start ch) False)
                      then ''Halted'' else ''Done''
            | Some c \<Rightarrow>
                if c \<noteq> 0 then ''Error ('' @ py_str c @ '')''
                else if Terminate \<in> set (loop_events (stdout ch) (clock_start ch) False)
                     then ''Halted'' else ''Done'')"
proof (cases "build_script_command g filename")
  case (Inl e)
  with assms show ?thesis by (simp add: inner_build_fail)
next
  case (Inr cmd)
  let ?p = "run_prologue (g\<lparr>cancel_pressed := False\<rparr>)"
  note i = inner_build_ok [OF Inr, of ch]
  from assms have n: "snd (with_popen ch cmd (clock_start ch) ?p) = None" by (simp add: i)
  from with_popen_None [OF n] have ok: "popen_ok ch"
    and x: "\<exists>x. snd (read_loop (stdout ch) (clock_start ch) ''Done'' (popen_entered cmd ?p)) = Inr x"
    by simp_all
  have "\<not> cancel_pressed ?p" by (simp add: run_prologue_fields)
  from with_popen_ok [OF ok this, of cmd "clock_start ch"] n
  obtain l where l: "status_label (fst (with_popen ch cmd (clock_start ch) ?p)) = ''Status: '' @ l"
    "l = (case poll ch of
              None \<Rightarrow> if Terminate \<in> set (loop_events (stdout ch) (clock_start ch) False)
                      then ''Halted'' else ''Done''
            | Some c \<Rightarrow>
                if c \<noteq> 0 then ''Error ('' @ py_str c @ '')''
                else if Terminate \<in> set (loop_events (stdout ch) (clock_start ch) False)
                     then ''Halted'' else ''Done'')"
    by auto
  have "final_events ch filename g = [StatusUpdate (Some l) (Some (clock_end ch - clock_start ch))]"
    using assms l(1) by (simp add: final_events_def i)
  with Inr ok x l show ?thesis by (simp add: i)
qed

lemma Terminate_run_events:
  "Terminate \<in> set (run_events ch filename g) \<longleftrightarrow>
   (\<exists>cmd. build_script_command g filename = Inr cmd) \<and> popen_ok ch
     \<and> Terminate \<in> set (loop_events (stdout ch) (clock_start ch) False)"
  by (cases "build_script_command g filename")
     (auto simp: run_events_shape Terminate_final_events)

lemma outputs_run_events:
  "outputs (run_events ch filename g) =
     (case build_script_command g filename of
        Inl e \<Rightarrow> []
      | Inr cmd \<Rightarrow> if popen_ok ch
                  then outputs (loop_events (stdout ch) (clock_start ch) False) else [])"
  by (simp add: run_events_shape outputs_append outputs_final_events split: sum.splits)

text \<open>
  C6. In the events of every run, each status update made for an output line comes after
  the output of that line; the lines written to the text widget are the first lines of
  the child, in the child's order, followed only by the notice of a termination (all the
  child's lines when the run ends without exception and without termination); and when
  the run ends without exception its last event is the status update with the final
  label and the total time, after every output.
\<close>

theorem run_event_order:
  "status_after_output (run_events ch filename g) 0
   \<and> (\<exists>k. outputs (run_events ch filename g)
          = take k (line_texts (stdout ch))
            @ (if Terminate \<in> set (run_events ch filename g)
               then [''Subprocess terminated.\<newline>''] else []))
   \<and> (snd (inner_run_script ch filename g) = None
        \<and> Terminate \<notin> set (run_events ch filename g) \<longrightarrow>
      outputs (run_events ch filename g) = line_texts (stdout ch))
   \<and> (snd (inner_run_script ch filename g) = None \<longrightarrow>
      (\<exists>es label.
         run_events ch filename g
           = es @ [StatusUpdate (Some label) (Some (clock_end ch - clock_start ch))]
         \<and> status_label (fst (inner_run_script ch filename g)) = ''Status: '' @ label
         \<and> outputs es = outputs (run_events ch filename g)))"
proof (intro conjI impI)
  show "status_after_output (run_events ch filename g) 0"
    by (auto simp: run_events_shape split: sum.splits
        intro!: status_after_output_loop_events status_after_output_final)
next
  show "\<exists>k. outputs (run_events ch filename g)
          = take k (line_texts (stdout ch))
            @ (if Terminate \<in> set (run_events ch filename g)
               then [''Subprocess terminated.\<newline>''] else [])"
  proof (cases "(\<exists>cmd. build_script_command g filename = Inr cmd) \<and> popen_ok ch")
    case True
    with outputs_loop_events [of "stdout ch" "clock_start ch" False] show ?thesis
      by (auto simp: outputs_run_events Terminate_run_events)
  next
    case False
    then have "outputs (run_events ch filename g) = []"
      and "Terminate \<notin> set (run_events ch filename g)"
      by (auto simp: outputs_run_events Terminate_run_events split: sum.splits)
    then show ?thesis by (intro exI [of _ 0]) simp
  qed
next
  assume a: "snd (inner_run_script ch filename g) = None
        \<and> Terminate \<notin> set (run_events ch filename g)"
  then have n: "snd (inner_run_script ch filename g) = None" by simp
  from inner_None [OF n] obtain cmd x where
    b: "build_script_command g filename = Inr cmd" and ok: "popen_ok ch"
    and x: "snd (read_loop (stdout ch) (clock_start ch) ''Done''
                (popen_entered cmd (run_prologue (g\<lparr>cancel_pressed := False\<rparr>)))) = Inr x"
    by blast
  let ?g0 = "popen_entered cmd (run_prologue (g\<lparr>cancel_pressed := False\<rparr>))"
  have c: "cancel_pressed ?g0 = False"
    by (simp add: popen_entered_def run_prologue_fields)
  from a b ok have "Terminate \<notin> set (loop_events (stdout ch) (clock_start ch) False)"
    by (simp add: Terminate_run_events)
  with read_loop_all_lines [OF x] c
  have "outputs (loop_events (stdout ch) (clock_start ch) False) = line_texts (stdout ch)"
    by simp
  with b ok show "outputs (run_events ch filename g) = line_texts (stdout ch)"
    by (simp add: outputs_run_events)
next
  assume a: "snd (inner_run_script ch filename g) = None"
  from inner_None [OF a] obtain cmd l where
    b: "build_script_command g filename = Inr cmd" and ok: "popen_ok ch"
    and f: "final_events ch filename g
              = [StatusUpdate (Some l) (Some (clock_end ch - clock_start ch))]"
    and s: "status_label (fst (inner_run_script ch filename g)) = ''Status: '' @ l"
    by blast
  let ?es = "StatusUpdate (Some ''Running'') (Some 0) # Spawn cmd
               # loop_events (stdout ch) (clock_start ch) False @ [Release]"
  have "run_events ch filename g
          = ?es @ [StatusUpdate (Some l) (Some (clock_end ch - clock_start ch))]"
    by (simp add: run_events_shape b ok f)
  moreover have "outputs ?es = outputs (run_events ch filename g)"
    by (simp add: outputs_run_events b ok outputs_append)
  ultimately show "\<exists>es label.
         run_events ch filename g
           = es @ [StatusUpdate (Some label) (Some (clock_end ch - clock_start ch))]
         \<and> status_label (fst (inner_run_script ch filename g)) = ''Status: '' @ label
         \<and> outputs es = outputs (run_events ch filename g)"
    using s by blast
qed

text \<open>
  The definitions that a run on a given child, script and window unfolds to.
\<close>

lemmas run_defs = inner_run_script_def build_script_command_def endswith_def with_popen_def
  run_prologue_def popen_entered_def write_line_def update_status_def terminate_def
  release_def poll_def ask_cancel_def BasicGUI_def Let_def

theorem run_event_order_witness:
  "snd (inner_run_script
      \<lparr>popen_ok = True,
        stdout = [Line ''a\<newline>'' 1 [], Line ''b\<newline>'' 2 [], Line ''c\<newline>'' 3 []],
        exited_at_poll = True, returncode = 0, clock_start = 0, clock_end = 4\<rparr>
      ''main.py'' BasicGUI) = None
   \<and> Terminate \<notin> set (run_events
      \<lparr>popen_ok = True,
        stdout = [Line ''a\<newline>'' 1 [], Line ''b\<newline>'' 2 [], Line ''c\<newline>'' 3 []],
        exited_at_poll = True, returncode = 0, clock_start = 0, clock_end = 4\<rparr>
      ''main.py'' BasicGUI)
   \<and> outputs (run_events
      \<lparr>popen_ok = True,
        stdout = [Line ''a\<newline>'' 1 [], Line ''b\<newline>'' 2 [], Line ''c\<newline>'' 3 []],
        exited_at_poll = True, returncode = 0, clock_start = 0, clock_end = 4\<rparr>
      ''main.py'' BasicGUI) = [''a\<newline>'', ''b\<newline>'', ''c\<newline>'']"
proof -
  let ?ch = "\<lparr>popen_ok = True,
        stdout = [Line ''a\<newline>'' 1 [], Line ''b\<newline>'' 2 [], Line ''c\<newline>'' 3 []],
        exited_at_poll = True, returncode = 0, clock_start = 0, clock_end = 4\<rparr>"
  have h1: "snd (inner_run_script ?ch ''main.py'' BasicGUI) = None"
    by (simp add: run_defs)
  have h2: "Terminate \<notin> set (run_events ?ch ''main.py'' BasicGUI)"
    by (simp add: run_events_def run_defs)
  show ?thesis
    using run_event_order [of ?ch "''main.py''" BasicGUI] h1 h2 by simp
qed

subsection \<open>The elapsed times\<close>

lemma elapsed_times_append: "elapsed_times (xs @ ys) = elapsed_times xs @ elapsed_times ys"
  by (induction xs rule: elapsed_times.induct) simp_all

lemma elapsed_times_loop_events:
  "\<exists>k. elapsed_times (loop_events rs t0 c) = map (\<lambda>t. t - t0) (take k (read_times rs))"
proof (induction rs t0 c rule: loop_events.induct)
  case (1 start_time c)
  then show ?case by simp
next
  case (2 rs start_time c)
  show ?case by (rule exI [of _ 0]) simp
next
  case (3 line now answers rs start_time c)
  show ?case
  proof (cases "c \<or> True \<in> set answers")
    case True
    show ?thesis by (rule exI [of _ 1]) (use True in simp)
  next
    case False
    with 3 obtain k where
      "elapsed_times (loop_events rs start_time False)
         = map (\<lambda>t. t - start_time) (take k (read_times rs))"
      by blast
    then show ?thesis using False by (intro exI [of _ "Suc k"]) simp
  qed
qed

lemma sorted_elapsed:
  fixes t0 :: real
  assumes "sorted (t0 # ts @ [te])"
  shows "sorted (0 # map (\<lambda>t. t - t0) (take k ts) @ [te - t0])"
proof -
  from assms have a: "\<forall>t \<in> set ts. t0 \<le> t \<and> t \<le> te" and b: "t0 \<le> te" and c: "sorted ts"
    by (auto simp: sorted_append)
  have d: "sorted (take k ts)" using c by (rule sorted_wrt_take)
  have e: "\<forall>t \<in> set (take k ts). t0 \<le> t \<and> t \<le> te" using a by (auto dest: in_set_takeD)
  have "sorted (map (\<lambda>t. t - t0) (take k ts))"
    using d by (simp add: sorted_map)
  with e b show ?thesis by (auto simp: sorted_append)
qed


lemma sorted_elapsed_open:
  fixes t0 :: real
  assumes "sorted (t0 # ts @ [te])"
  shows "sorted (0 # map (\<lambda>t. t - t0) (take k ts))"
  using sorted_elapsed [OF assms, of k] by (simp add: sorted_append)

lemma elapsed_times_final_events:
  "elapsed_times (final_events ch filename g)
     = (if snd (inner_run_script ch filename g) = None then [clock_end ch - clock_start ch] else [])"
  by (simp add: final_events_def split: option.splits)

text \<open>
  C8, as the code has it. The elapsed times are differences of readings of \<open>time.time()\<close>,
  the wall clock. When the readings of a run do not decrease (the one at the start, the
  one after each line, the one at the end), the elapsed times of its status updates do
  not decrease either, from the \<open>0.0\<close> shown with \<open>Running\<close> on; and when the run ends
  without exception, the elapsed time of the final status update is at least every
  other one.
\<close>

theorem elapsed_times_sorted:
  assumes "sorted (clock_start ch # read_times (stdout ch) @ [clock_end ch])"
  shows "sorted (elapsed_times (run_events ch filename g))
     \<and> (snd (inner_run_script ch filename g) = None \<longrightarrow>
          (\<forall>t \<in> set (elapsed_times (run_events ch filename g)).
             t \<le> clock_end ch - clock_start ch))"
proof (cases "build_script_command g filename")
  case (Inl e)
  then show ?thesis using inner_build_fail [OF Inl, of ch] by (simp add: run_events_shape)
next
  case (Inr cmd)
  show ?thesis
  proof (cases "popen_ok ch")
    case False
    then show ?thesis using Inr
      by (simp add: run_events_shape inner_build_ok with_popen_fail)
  next
    case True
    obtain k where k: "elapsed_times (loop_events (stdout ch) (clock_start ch) False)
        = map (\<lambda>t. t - clock_start ch) (take k (read_times (stdout ch)))"
      using elapsed_times_loop_events by blast
    have e: "elapsed_times (run_events ch filename g)
        = 0 # map (\<lambda>t. t - clock_start ch) (take k (read_times (stdout ch)))
            @ (if snd (inner_run_script ch filename g) = None
               then [clock_end ch - clock_start ch] else [])"
      by (simp add: run_events_shape Inr True elapsed_times_append k elapsed_times_final_events)
    show ?thesis
    proof (cases "snd (inner_run_script ch filename g) = None")
      case n: True
      have e1: "elapsed_times (run_events ch filename g)
          = 0 # map (\<lambda>t. t - clock_start ch) (take k (read_times (stdout ch)))
              @ [clock_end ch - clock_start ch]"
        using e n by simp
      have s: "sorted (0 # map (\<lambda>t. t - clock_start ch) (take k (read_times (stdout ch)))
            @ [clock_end ch - clock_start ch])"
        using sorted_elapsed [OF assms] .
      then have "\<forall>t \<in> set (0 # map (\<lambda>t. t - clock_start ch) (take k (read_times (stdout ch)))
            @ [clock_end ch - clock_start ch]). t \<le> clock_end ch - clock_start ch"
        by (auto simp: sorted_append)
      with s show ?thesis unfolding e1 by blast
    next
      case False
      then have e2: "elapsed_times (run_events ch filename g)
          = 0 # map (\<lambda>t. t - clock_start ch) (take k (read_times (stdout ch)))"
        using e by simp
      show ?thesis unfolding e2 using False sorted_elapsed_open [OF assms, of k] by blast
    qed
  qed
qed

theorem elapsed_times_sorted_witness:
  "sorted ((0::real) # [1, 2, 3] @ [4])
   \<and> sorted (elapsed_times (run_events
      \<lparr>popen_ok = True,
        stdout = [Line ''a\<newline>'' 1 [], Line ''b\<newline>'' 2 [], Line ''c\<newline>'' 3 []],
        exited_at_poll = True, returncode = 0, clock_start = 0, clock_end = 4\<rparr>
      ''main.py'' BasicGUI))
   \<and> elapsed_times (run_events
      \<lparr>popen_ok = True,
        stdout = [Line ''a\<newline>'' 1 [], Line ''b\<newline>'' 2 [], Line ''c\<newline>'' 3 []],
        exited_at_poll = True, returncode = 0, clock_start = 0, clock_end = 4\<rparr>
      ''main.py'' BasicGUI) = [0, 1, 2, 3, 4]"
proof -
  let ?ch = "\<lparr>popen_ok = True,
        stdout = [Line ''a\<newline>'' 1 [], Line ''b\<newline>'' 2 [], Line ''c\<newline>'' 3 []],
        exited_at_poll = True, returncode = 0, clock_start = 0, clock_end = 4\<rparr>"
  have h: "sorted (clock_start ?ch # read_times (stdout ?ch) @ [clock_end ?ch])" by simp
  have v: "elapsed_times (run_events ?ch ''main.py'' BasicGUI) = [0, 1, 2, 3, 4]"
    by (simp add: run_events_def run_defs)
  show ?thesis
    using elapsed_times_sorted [OF h, of "''main.py''" BasicGUI] v by simp
qed

text \<open>
  C8 as it is written holds for every run. A wall clock that is set back during the run
  gives a later status update the smaller elapsed time: the clock reads 100 at the
  start and 90 after the first line.
\<close>

theorem elapsed_times_backward_clock_counterexample:
  "elapsed_times (run_events
      \<lparr>popen_ok = True, stdout = [Line ''a\<newline>'' 90 []],
        exited_at_poll = True, returncode = 0, clock_start = 100, clock_end = 110\<rparr>
      ''main.py'' BasicGUI) = [0, - 10, 10]
   \<and> \<not> sorted (elapsed_times (run_events
      \<lparr>popen_ok = True, stdout = [Line ''a\<newline>'' 90 []],
        exited_at_poll = True, returncode = 0, clock_start = 100, clock_end = 110\<rparr>
      ''main.py'' BasicGUI))"
  by (simp add: run_events_def run_defs)

subsection \<open>Cancellation\<close>

















subsection \<open>The status at the end of a run\<close>

lemma inner_Some:
  assumes "snd (inner_run_script ch filename g) = Some e"
  shows "(\<exists>msg. e = ValueError msg) \<and> build_script_command g filename = Inl e
           \<and> status_label (fst (inner_run_script ch filename g)) = status_label g
         \<or> (e = PopenError \<or> e = ReadError)
           \<and> status_label (fst (inner_run_script ch filename g)) = ''Status: Running''"
proof (cases "build_script_command g filename")
  case (Inl e')
  then have "\<exists>msg. e' = ValueError msg"
    by (auto simp: build_script_command_def Let_def split: if_splits option.splits)
  with Inl assms show ?thesis by (simp add: inner_build_fail)
next
  case (Inr cmd)
  let ?p = "run_prologue (g\<lparr>cancel_pressed := False\<rparr>)"
  note i = inner_build_ok [OF Inr, of ch]
  show ?thesis
  proof (cases "popen_ok ch")
    case False
    with assms show ?thesis by (auto simp: i with_popen_fail run_prologue_fields)
  next
    case True
    have "\<not> cancel_pressed ?p" by (simp add: run_prologue_fields)
    from with_popen_ok [OF True this, of cmd "clock_start ch"] assms
    show ?thesis by (auto simp: i run_prologue_fields)
  qed
qed

text \<open>
  The final label of a run that ends without exception: \<open>Error (c)\<close> when the child had
  exited with a return code \<open>c\<close> other than zero by the time of \<open>p.poll()\<close>, whether or
  not the run was cancelled; otherwise \<open>Halted\<close> after a termination request and \<open>Done\<close>
  without one.
\<close>

lemma final_label:
  assumes "snd (inner_run_script ch filename g) = None"
  shows "status_label (fst (inner_run_script ch filename g))
     = ''Status: '' @
       (if exited_at_poll ch \<and> returncode ch \<noteq> 0
        then ''Error ('' @ py_str (returncode ch) @ '')''
        else if Terminate \<in> set (run_events ch filename g) then ''Halted'' else ''Done'')"
proof -
  from inner_None [OF assms] obtain cmd l where
    b: "build_script_command g filename = Inr cmd" and ok: "popen_ok ch"
    and s: "status_label (fst (inner_run_script ch filename g)) = ''Status: '' @ l"
    and l: "l = (case poll ch of
              None \<Rightarrow> if Terminate \<in> set (loop_events (stdout ch) (clock_start ch) False)
                      then ''Halted'' else ''Done''
            | Some c \<Rightarrow>
                if c \<noteq> 0 then ''Error ('' @ py_str c @ '')''
                else if Terminate \<in> set (loop_events (stdout ch) (clock_start ch) False)
                     then ''Halted'' else ''Done'')"
    by blast
  have t: "Terminate \<in> set (run_events ch filename g)
       \<longleftrightarrow> Terminate \<in> set (loop_events (stdout ch) (clock_start ch) False)"
    using b ok by (simp add: Terminate_run_events)
  show ?thesis unfolding s l t by (simp add: poll_def)
qed

text \<open>
  C1, as the code has it. A run that ends without exception ends with the status label
  \<open>Done\<close>, \<open>Halted\<close> or \<open>Error (c)\<close>, \<open>c\<close> being the return code of the child, and not
  with \<open>Running\<close>. The code catches no exception: an unsupported file type ends the
  thread with \<open>ValueError\<close> and the status label as it was before the run, and an error
  of the spawn or of a read ends it with the status label \<open>Running\<close>.
\<close>

theorem run_final_status:
  "(snd (inner_run_script ch filename g) = None \<longrightarrow>
      (status_label (fst (inner_run_script ch filename g)) = ''Status: Done''
       \<or> status_label (fst (inner_run_script ch filename g)) = ''Status: Halted''
       \<or> status_label (fst (inner_run_script ch filename g))
           = ''Status: Error ('' @ py_str (returncode ch) @ '')'')
      \<and> status_label (fst (inner_run_script ch filename g)) \<noteq> ''Status: Running'')
   \<and> (\<forall>msg. snd (inner_run_script ch filename g) = Some (ValueError msg) \<longrightarrow>
        status_label (fst (inner_run_script ch filename g)) = status_label g)
   \<and> (snd (inner_run_script ch filename g) = Some PopenError
        \<or> snd (inner_run_script ch filename g) = Some ReadError \<longrightarrow>
        status_label (fst (inner_run_script ch filename g)) = ''Status: Running'')"
proof (intro conjI impI allI)
  assume n: "snd (inner_run_script ch filename g) = None"
  from inner_None [OF n] obtain l where
    s: "status_label (fst (inner_run_script ch filename g)) = ''Status: '' @ l"
    and l: "l = (case poll ch of
              None \<Rightarrow> if Terminate \<in> set (loop_events (stdout ch) (clock_start ch) False)
                      then ''Halted'' else ''Done''
            | Some c \<Rightarrow>
                if c \<noteq> 0 then ''Error ('' @ py_str c @ '')''
                else if Terminate \<in> set (loop_events (stdout ch) (clock_start ch) False)
                     then ''Halted'' else ''Done'')"
    by blast
  from l have "l = ''Done'' \<or> l = ''Halted'' \<or> l = ''Error ('' @ py_str (returncode ch) @ '')''"
    by (auto simp: poll_def split: option.splits if_splits)
  then show "status_label (fst (inner_run_script ch filename g)) = ''Status: Done''
       \<or> status_label (fst (inner_run_script ch filename g)) = ''Status: Halted''
       \<or> status_label (fst (inner_run_script ch filename g))
           = ''Status: Error ('' @ py_str (returncode ch) @ '')''"
    and "status_label (fst (inner_run_script ch filename g)) \<noteq> ''Status: Running''"
    unfolding s by auto
next
  fix msg
  assume "snd (inner_run_script ch filename g) = Some (ValueError msg)"
  from inner_Some [OF this]
  show "status_label (fst (inner_run_script ch filename g)) = status_label g" by auto
next
  assume "snd (inner_run_script ch filename g) = Some PopenError
        \<or> snd (inner_run_script ch filename g) = Some ReadError"
  then show "status_label (fst (inner_run_script ch filename g)) = ''Status: Running''"
    using inner_Some [of ch filename g PopenError] inner_Some [of ch filename g ReadError]
    by auto
qed

theorem run_final_status_witness:
  "snd (inner_run_script
      \<lparr>popen_ok = True, stdout = [Line ''a\<newline>'' 1 []],
        exited_at_poll = True, returncode = 3, clock_start = 0, clock_end = 2\<rparr>
      ''main.py'' BasicGUI) = None
   \<and> status_label (fst (inner_run_script
      \<lparr>popen_ok = True, stdout = [Line ''a\<newline>'' 1 []],
        exited_at_poll = True, returncode = 3, clock_start = 0, clock_end = 2\<rparr>
      ''main.py'' BasicGUI)) \<noteq> ''Status: Running''
   \<and> snd (inner_run_script
      \<lparr>popen_ok = True, stdout = [Line ''a\<newline>'' 1 []],
        exited_at_poll = True, returncode = 3, clock_start = 0, clock_end = 2\<rparr>
      ''notes.txt'' BasicGUI)
      = Some (ValueError
          ''File notes.txt has an unrecognized extension. Must be .py, .exe, or .sh.'')
   \<and> status_label (fst (inner_run_script
      \<lparr>popen_ok = True, stdout = [Line ''a\<newline>'' 1 []],
        exited_at_poll = True, returncode = 3, clock_start = 0, clock_end = 2\<rparr>
      ''notes.txt'' BasicGUI)) = ''Status: No file selected.''
   \<and> snd (inner_run_script
      \<lparr>popen_ok = True, stdout = [Line ''a\<newline>'' 1 [], ReadFail],
        exited_at_poll = True, returncode = 3, clock_start = 0, clock_end = 2\<rparr>
      ''main.py'' BasicGUI) = Some ReadError
   \<and> status_label (fst (inner_run_script
      \<lparr>popen_ok = True, stdout = [Line ''a\<newline>'' 1 [], ReadFail],
        exited_at_poll = True, returncode = 3, clock_start = 0, clock_end = 2\<rparr>
      ''main.py'' BasicGUI)) = ''Status: Running''"
proof -
  let ?ch = "\<lparr>popen_ok = True, stdout = [Line ''a\<newline>'' 1 []],
        exited_at_poll = True, returncode = 3, clock_start = 0, clock_end = 2\<rparr>"
  let ?bad = "\<lparr>popen_ok = True, stdout = [Line ''a\<newline>'' 1 [], ReadFail],
        exited_at_poll = True, returncode = 3, clock_start = 0, clock_end = 2\<rparr>"
  have h1: "snd (inner_run_script ?ch ''main.py'' BasicGUI) = None"
    by (simp add: run_defs)
  have h2: "snd (inner_run_script ?ch ''notes.txt'' BasicGUI)
      = Some (ValueError
          ''File notes.txt has an unrecognized extension. Must be .py, .exe, or .sh.'')"
    by (simp add: run_defs)
  have h3: "snd (inner_run_script ?bad ''main.py'' BasicGUI) = Some ReadError"
    by (simp add: run_defs)
  have g: "status_label BasicGUI = ''Status: No file selected.''"
    by (simp add: BasicGUI_def)
  show ?thesis
    using run_final_status [of ?ch "''main.py''" BasicGUI]
      run_final_status [of ?ch "''notes.txt''" BasicGUI]
      run_final_status [of ?bad "''main.py''" BasicGUI]
      h1 h2 h3 g
    by simp
qed

text \<open>
  C1 as it is written has every failure of a started run end in a terminal status. When
  \<open>Popen\<close> cannot start the program, the thread ends with the exception after the status
  was set to \<open>Running\<close>, and \<open>Running\<close> stays.
\<close>

theorem spawn_error_leaves_running_counterexample:
  "snd (inner_run_script
      \<lparr>popen_ok = False, stdout = [],
        exited_at_poll = False, returncode = 0, clock_start = 0, clock_end = 1\<rparr>
      ''main.py'' (fst (run_script (\<lambda>f. f = ''main.py'') ''main.py'' False BasicGUI)))
     = Some PopenError
   \<and> status_label (fst (inner_run_script
      \<lparr>popen_ok = False, stdout = [],
        exited_at_poll = False, returncode = 0, clock_start = 0, clock_end = 1\<rparr>
      ''main.py'' (fst (run_script (\<lambda>f. f = ''main.py'') ''main.py'' False BasicGUI))))
     = ''Status: Running''"
  by (simp add: run_defs run_script_def)

text \<open>
  C3 says that without cancellation a child that exits with a return code \<open>c\<close> other than
  zero gives the final label \<open>Error (c)\<close>. The code asks \<open>p.poll()\<close> once, right after
  the end of the stream, and waits for the child only afterwards, on leaving the \<open>with\<close>
  block. Here the child has closed its output and has not yet exited when it is polled,
  and then exits with 3: the run is not cancelled and the final label is \<open>Done\<close>.
\<close>

theorem exit_code_missed_when_not_exited:
  "snd (inner_run_script
      \<lparr>popen_ok = True, stdout = [Line ''hi\<newline>'' 1 []],
        exited_at_poll = False, returncode = 3, clock_start = 0, clock_end = 2\<rparr>
      ''job.sh'' BasicGUI) = None
   \<and> status_label (fst (inner_run_script
      \<lparr>popen_ok = True, stdout = [Line ''hi\<newline>'' 1 []],
        exited_at_poll = False, returncode = 3, clock_start = 0, clock_end = 2\<rparr>
      ''job.sh'' BasicGUI)) = ''Status: Done''
   \<and> run_events
      \<lparr>popen_ok = True, stdout = [Line ''hi\<newline>'' 1 []],
        exited_at_poll = False, returncode = 3, clock_start = 0, clock_end = 2\<rparr>
      ''job.sh'' BasicGUI
     = [StatusUpdate (Some ''Running'') (Some 0), Spawn [''bash'', ''job.sh''],
        OutputEvent ''hi\<newline>'', StatusUpdate None (Some 1), Release,
        StatusUpdate (Some ''Done'') (Some 2)]"
  by (simp add: run_events_def run_defs)

text \<open>
  C4 says that a run cancelled at the checkpoint after a line ends with the final label
  \<open>Halted\<close>. The code sets \<open>exit_status = 'Halted'\<close> and leaves the loop, and then
  \<open>if p.poll()\<close> replaces it when the child has already exited with a return code other
  than zero. Here the cancellation is confirmed while the first line is handled and the
  terminated child has exited with -15 (killed by SIGTERM) when it is polled: the
  termination request, the single notice and the end of the output are as the claim
  says, and the final label is \<open>Error (-15)\<close>.
\<close>

theorem halted_label_replaced:
  "snd (inner_run_script
      \<lparr>popen_ok = True,
        stdout = [Line ''line1\<newline>'' 1 [True], Line ''line2\<newline>'' 2 []],
        exited_at_poll = True, returncode = - 15, clock_start = 0, clock_end = 3\<rparr>
      ''main.py'' BasicGUI) = None
   \<and> status_label (fst (inner_run_script
      \<lparr>popen_ok = True,
        stdout = [Line ''line1\<newline>'' 1 [True], Line ''line2\<newline>'' 2 []],
        exited_at_poll = True, returncode = - 15, clock_start = 0, clock_end = 3\<rparr>
      ''main.py'' BasicGUI)) = ''Status: Error (-15)''
   \<and> run_events
      \<lparr>popen_ok = True,
        stdout = [Line ''line1\<newline>'' 1 [True], Line ''line2\<newline>'' 2 []],
        exited_at_poll = True, returncode = - 15, clock_start = 0, clock_end = 3\<rparr>
      ''main.py'' BasicGUI
     = [StatusUpdate (Some ''Running'') (Some 0), Spawn [''python'', ''-u'', ''main.py''],
        OutputEvent ''line1\<newline>'', StatusUpdate None (Some 1), Terminate,
        OutputEvent ''Subprocess terminated.\<newline>'', Release,
        StatusUpdate (Some ''Error (-15)'') (Some 3)]"
  by (simp add: run_events_def run_defs py_str_def)

subsection \<open>The Run button while a script runs\<close>





end
